theory Spec2Isabelle
  imports Main "HOL-Library.Word"
begin

section \<open>Execution context (rtsan_context.cpp, lines 68--76 and 91--93)\<close>

text \<open>
  Modelled from the spec: the declaration of class \<open>__rtsan::Context\<close> lives in the
  header \<open>rtsan/rtsan_context.h\<close>, not in the file translated here. The spec
  describes its data as two integer counters, \<open>realtime_depth\<close> and \<open>bypass_depth\<close>,
  that a pop may take below zero and that are zero in a freshly created context. They
  are modelled as 32-bit machine integers read as two's complement (\<open>sint\<close>), the C++
  type \<open>int\<close>; \<open>+\<close> and \<open>-\<close> on words wrap around.
\<close>

record Context =
  realtime_depth :: "32 word"
  bypass_depth :: "32 word"

text \<open>\<open>__rtsan::Context::Context() = default;\<close> with both counters zero.\<close>

definition Context_default :: Context where
  "Context_default = \<lparr>realtime_depth = 0, bypass_depth = 0\<rparr>"

text \<open>\<open>void Context::RealtimePush() { realtime_depth_++; }\<close>\<close>

definition RealtimePush :: "Context \<Rightarrow> Context" where
  "RealtimePush c = c\<lparr>realtime_depth := realtime_depth c + 1\<rparr>"

text \<open>\<open>void Context::RealtimePop() { realtime_depth_--; }\<close>\<close>

definition RealtimePop :: "Context \<Rightarrow> Context" where
  "RealtimePop c = c\<lparr>realtime_depth := realtime_depth c - 1\<rparr>"

text \<open>\<open>void Context::BypassPush() { bypass_depth_++; }\<close>\<close>

definition BypassPush :: "Context \<Rightarrow> Context" where
  "BypassPush c = c\<lparr>bypass_depth := bypass_depth c + 1\<rparr>"

text \<open>\<open>void Context::BypassPop() { bypass_depth_--; }\<close>\<close>

definition BypassPop :: "Context \<Rightarrow> Context" where
  "BypassPop c = c\<lparr>bypass_depth := bypass_depth c - 1\<rparr>"

text \<open>\<open>bool Context::InRealtimeContext() const { return realtime_depth_ > 0; }\<close>\<close>

definition InRealtimeContext :: "Context \<Rightarrow> bool" where
  "InRealtimeContext c \<longleftrightarrow> 0 < sint (realtime_depth c)"

text \<open>\<open>bool Context::IsBypassed() const { return bypass_depth_ > 0; }\<close>\<close>

definition IsBypassed :: "Context \<Rightarrow> bool" where
  "IsBypassed c \<longleftrightarrow> 0 < sint (bypass_depth c)"


section \<open>Outcome of a call\<close>

text \<open>
  How a call ends: it returns a value and leaves a state, a \<open>CHECK\<close> fails, or
  \<open>Die()\<close> ends the process. The two fatal outcomes carry the state in which the
  process ended. A \<open>void\<close> function returns \<open>()\<close>.
\<close>

datatype ('a, 's) exec = Returns 'a 's | CheckFailed 's | Died 's


section \<open>Diagnostics reporter (rtsan_context.cpp, lines 95--118)\<close>

text \<open>
  Program counter and frame pointer of the call site, as \<open>GET_CALLER_PC_BP\<close> reads
  them (\<open>uptr\<close>).
\<close>

type_synonym uptr = "64 word"

text \<open>
  What the reporting path does to the outside world, in order: taking and releasing the
  process-wide \<open>ScopedErrorReportLock\<close>, the strings handed to \<open>Printf\<close> and
  \<open>Report\<close> (after formatting), and the call of \<open>__rtsan::PrintStackTrace\<close>.
\<close>

datatype out_event =
    ReportLock
  | ReportUnlock
  | Printf string
  | Report string
  | PrintStackTrace uptr uptr

text \<open>
  The colour strings of \<open>__sanitizer::SanitizerCommonDecorator\<close> (\<open>sanitizer_common\<close>,
  outside the file translated here) are parameters of the model.
\<close>

record SanitizerCommonDecorator =
  dec_Error :: string
  dec_Default :: string
  dec_Green :: string
  dec_Blue :: string

text \<open>\<open>const char *FunctionName() { return Green(); }\<close>\<close>

definition FunctionName :: "SanitizerCommonDecorator \<Rightarrow> string" where
  "FunctionName d = dec_Green d"

text \<open>\<open>const char *Reason() { return Blue(); }\<close>\<close>

definition Reason :: "SanitizerCommonDecorator \<Rightarrow> string" where
  "Reason d = dec_Blue d"

text \<open>
  The state of the process as one thread's call of the detector sees it: the flag read
  by \<open>__rtsan_is_initialized()\<close>, the \<open>Context\<close> passed by reference, the decorator
  in force, and everything written to the error output so far.
\<close>

record process =
  rtsan_is_initialized :: bool
  ctx :: Context
  decorator :: SanitizerCommonDecorator
  report :: "out_event list"


definition emit :: "out_event \<Rightarrow> process \<Rightarrow> process" where
  "emit e s = s\<lparr>report := report s @ [e]\<rparr>"

text \<open>The statements of \<open>PrintDiagnostics\<close>, in source order.\<close>

definition PrintDiagnostics_steps ::
  "SanitizerCommonDecorator \<Rightarrow> string \<Rightarrow> uptr \<Rightarrow> uptr \<Rightarrow> out_event list" where
  "PrintDiagnostics_steps d intercepted_function_name pc bp =
     [ReportLock,
      Printf (dec_Error d),
      Report (''ERROR: RealtimeSanitizer: unsafe-library-call'' @ [CHR 0x0A]),
      Printf (Reason d),
      Printf (''Intercepted call to real-time unsafe function `''
              @ FunctionName d @ intercepted_function_name @ Reason d
              @ ''` in real-time context!'' @ [CHR 0x0A]),
      Printf (dec_Default d),
      PrintStackTrace pc bp,
      ReportUnlock]"

text \<open>
  What \<open>PrintDiagnostics\<close> itself writes, that is, when the external calls perform
  no intercepted operation of their own. The section on the re-entering reporting path
  below lifts that restriction.
\<close>

definition PrintDiagnostics :: "string \<Rightarrow> uptr \<Rightarrow> uptr \<Rightarrow> process \<Rightarrow> process" where
  "PrintDiagnostics intercepted_function_name pc bp s =
     fold emit (PrintDiagnostics_steps (decorator s) intercepted_function_name pc bp) s"


section \<open>Violation detector (rtsan_context.cpp, lines 52--89)\<close>

text \<open>\<open>static void InvokeViolationDetectedAction() { Die(); }\<close>\<close>

definition InvokeViolationDetectedAction :: "process \<Rightarrow> (unit, process) exec" where
  "InvokeViolationDetectedAction s = Died s"

text \<open>
  The body of \<open>ExpectNotRealtime\<close>, with the action invoked after the report as a
  parameter: the source names it a placeholder for a configurable action (exit,
  continue, wait for input).
\<close>

definition ExpectNotRealtime_with ::
  "(process \<Rightarrow> (unit, process) exec) \<Rightarrow> process \<Rightarrow> string \<Rightarrow> uptr \<Rightarrow> uptr
   \<Rightarrow> (unit, process) exec" where
  "ExpectNotRealtime_with action s intercepted_function_name pc bp =
     (if \<not> rtsan_is_initialized s then CheckFailed s
      else if InRealtimeContext (ctx s) \<and> \<not> IsBypassed (ctx s) then
        (let s1 = s\<lparr>ctx := BypassPush (ctx s)\<rparr>;
             s2 = PrintDiagnostics intercepted_function_name pc bp s1
         in case action s2 of
              Returns _ s3 \<Rightarrow> Returns () (s3\<lparr>ctx := BypassPop (ctx s3)\<rparr>)
            | CheckFailed s3 \<Rightarrow> CheckFailed s3
            | Died s3 \<Rightarrow> Died s3)
      else Returns () s)"

text \<open>\<open>__rtsan::ExpectNotRealtime\<close> as the source has it: the action is \<open>Die()\<close>.\<close>

definition ExpectNotRealtime ::
  "process \<Rightarrow> string \<Rightarrow> uptr \<Rightarrow> uptr \<Rightarrow> (unit, process) exec" where
  "ExpectNotRealtime = ExpectNotRealtime_with InvokeViolationDetectedAction"


text \<open>A process with uncoloured reports in which nothing has been reported yet.\<close>

definition process_of :: "bool \<Rightarrow> Context \<Rightarrow> process" where
  "process_of init c =
     \<lparr>rtsan_is_initialized = init, ctx = c,
      decorator = \<lparr>dec_Error = [], dec_Default = [], dec_Green = [], dec_Blue = []\<rparr>,
      report = []\<rparr>"



section \<open>The detector with a reporting path that re-enters it\<close>

text \<open>
  \<open>Printf\<close>, \<open>Report\<close>, \<open>PrintStackTrace\<close> and the report lock are external. While
  they run they may perform real-time-unsafe operations of their own (allocating,
  writing), and each such operation is intercepted: it calls \<open>ExpectNotRealtime\<close> on
  the calling thread's Context, the one the outer call was given by reference, before it
  runs. Which operations an external call performs is a parameter of the model:
  \<open>ops e\<close> lists, for the external call recorded as the output event \<open>e\<close>, the
  intercepted function names with the program counter and frame pointer of their call
  sites, in the order in which they happen; the event is recorded when they are done.
\<close>

type_synonym intercepted_call = "string \<times> uptr \<times> uptr"

text \<open>
  A detector call may nest: the reporter it drives may call the detector again. The
  result is \<open>None\<close> when the nesting goes deeper than a given bound.
\<close>

type_synonym detector = "process \<Rightarrow> string \<Rightarrow> uptr \<Rightarrow> uptr \<Rightarrow> (unit, process) exec option"

text \<open>
  The intercepted operations of one external call, one after the other: each calls the
  detector, and the next one runs only if that call returns.
\<close>

fun intercepted_calls ::
  "detector \<Rightarrow> intercepted_call list \<Rightarrow> process \<Rightarrow> (unit, process) exec option" where
  "intercepted_calls d [] s = Some (Returns () s)"
| "intercepted_calls d ((intercepted_function_name, pc, bp) # cs) s =
     (case d s intercepted_function_name pc bp of
        None \<Rightarrow> None
      | Some (Returns _ s') \<Rightarrow> intercepted_calls d cs s'
      | Some (CheckFailed s') \<Rightarrow> Some (CheckFailed s')
      | Some (Died s') \<Rightarrow> Some (Died s'))"

text \<open>
  The statements of \<open>PrintDiagnostics\<close> in order, each external call with its
  intercepted operations.
\<close>

fun PrintDiagnostics_reentrant ::
  "detector \<Rightarrow> (out_event \<Rightarrow> intercepted_call list) \<Rightarrow> out_event list \<Rightarrow> process
   \<Rightarrow> (unit, process) exec option" where
  "PrintDiagnostics_reentrant d ops [] s = Some (Returns () s)"
| "PrintDiagnostics_reentrant d ops (e # es) s =
     (case intercepted_calls d (ops e) s of
        None \<Rightarrow> None
      | Some (Returns _ s') \<Rightarrow> PrintDiagnostics_reentrant d ops es (emit e s')
      | Some (CheckFailed s') \<Rightarrow> Some (CheckFailed s')
      | Some (Died s') \<Rightarrow> Some (Died s'))"

text \<open>
  The body of \<open>ExpectNotRealtime\<close> (lines 78--89) with this reporter. The first
  argument bounds the depth to which detector calls may nest.
\<close>

fun ExpectNotRealtime_nested ::
  "nat \<Rightarrow> (out_event \<Rightarrow> intercepted_call list) \<Rightarrow> (process \<Rightarrow> (unit, process) exec)
   \<Rightarrow> detector" where
  "ExpectNotRealtime_nested 0 ops action s intercepted_function_name pc bp = None"
| "ExpectNotRealtime_nested (Suc depth) ops action s intercepted_function_name pc bp =
     (if \<not> rtsan_is_initialized s then Some (CheckFailed s)
      else if InRealtimeContext (ctx s) \<and> \<not> IsBypassed (ctx s) then
        (case PrintDiagnostics_reentrant (ExpectNotRealtime_nested depth ops action) ops
                (PrintDiagnostics_steps (decorator s) intercepted_function_name pc bp)
                (s\<lparr>ctx := BypassPush (ctx s)\<rparr>) of
           None \<Rightarrow> None
         | Some (CheckFailed s2) \<Rightarrow> Some (CheckFailed s2)
         | Some (Died s2) \<Rightarrow> Some (Died s2)
         | Some (Returns _ s2) \<Rightarrow>
             (case action s2 of
                Returns _ s3 \<Rightarrow> Some (Returns () (s3\<lparr>ctx := BypassPop (ctx s3)\<rparr>))
              | CheckFailed s3 \<Rightarrow> Some (CheckFailed s3)
              | Died s3 \<Rightarrow> Some (Died s3)))
      else Some (Returns () s))"

text \<open>
  A reporting path whose stack walk allocates: \<open>PrintStackTrace\<close> calls the intercepted
  \<open>malloc\<close> once, the other external calls perform no intercepted operation.
\<close>

fun stack_trace_allocates :: "out_event \<Rightarrow> intercepted_call list" where
  "stack_trace_allocates (PrintStackTrace pc bp) = [(''malloc'', pc, bp)]"
| "stack_trace_allocates _ = []"



section \<open>Context registry (rtsan_context.cpp, lines 27--50 and 120--122)\<close>

type_synonym thread = nat
type_synonym pthread_key_t = nat

text \<open>Addresses; \<open>0\<close> is \<open>nullptr\<close>.\<close>

type_synonym addr = nat

text \<open>A block handed out by the internal allocator.\<close>

datatype block = Raw | Live Context | Freed

text \<open>The destructors registered with thread-specific keys.\<close>

datatype destructor = InternalFreeWrapper

text \<open>
  The part of the process the registry works on.
  \<^item> \<open>key_once\<close> and \<open>context_key\<close> are the two static variables of the source;
    \<open>key_once\<close> is true once the routine given to \<open>pthread_once\<close> has run.
  \<^item> \<open>pthread_keys\<close> are the keys \<open>pthread_key_create\<close> can still hand out (none left:
    it fails with \<open>EAGAIN\<close>); \<open>key_destructors\<close> are the keys created, each with its
    destructor; \<open>specific t k\<close> is what \<open>pthread_getspecific(k)\<close> returns on thread
    \<open>t\<close>.
  \<^item> \<open>heap\<close> holds the blocks of \<open>InternalAlloc\<close>: the block at address \<open>a > 0\<close> is
    \<open>heap ! (a - 1)\<close>; \<open>heap_limit\<close> is the number of blocks the allocator can serve
    before it runs out of memory.
\<close>

record registry =
  key_once :: bool
  context_key :: pthread_key_t
  pthread_keys :: "pthread_key_t list"
  key_destructors :: "(pthread_key_t \<times> destructor) list"
  specific :: "thread \<Rightarrow> pthread_key_t \<Rightarrow> addr"
  heap :: "block list"
  heap_limit :: nat

definition EAGAIN :: int where
  "EAGAIN = 11"

text \<open>
  \<open>pthread_key_create(&context_key, d)\<close>: the new key is stored in \<open>context_key\<close>, and
  its value is \<open>NULL\<close> in every thread.
\<close>

definition pthread_key_create :: "destructor \<Rightarrow> registry \<Rightarrow> int \<times> registry" where
  "pthread_key_create d s =
     (case pthread_keys s of
        [] \<Rightarrow> (EAGAIN, s)
      | k # ks \<Rightarrow>
          (0, s\<lparr>context_key := k,
                pthread_keys := ks,
                key_destructors := (k, d) # key_destructors s,
                specific := (\<lambda>t k'. if k' = k then 0 else specific s t k')\<rparr>))"

text \<open>
  The lambda \<open>make_thread_local_context_key\<close>:
  \<open>CHECK_EQ(pthread_key_create(&context_key, InternalFreeWrapper), 0);\<close>
\<close>

definition make_thread_local_context_key :: "registry \<Rightarrow> (unit, registry) exec" where
  "make_thread_local_context_key s =
     (case pthread_key_create InternalFreeWrapper s of
        (rc, s') \<Rightarrow> if rc = 0 then Returns () s' else CheckFailed s')"

text \<open>\<open>pthread_once(&key_once, init)\<close>, one call at a time.\<close>

definition pthread_once ::
  "(registry \<Rightarrow> (unit, registry) exec) \<Rightarrow> registry \<Rightarrow> (unit, registry) exec" where
  "pthread_once init_routine s =
     (if key_once s then Returns () s
      else case init_routine s of
             Returns _ s' \<Rightarrow> Returns () (s'\<lparr>key_once := True\<rparr>)
           | CheckFailed s' \<Rightarrow> CheckFailed s'
           | Died s' \<Rightarrow> Died s')"

definition pthread_getspecific :: "thread \<Rightarrow> pthread_key_t \<Rightarrow> registry \<Rightarrow> addr" where
  "pthread_getspecific t k s = specific s t k"

definition pthread_setspecific ::
  "thread \<Rightarrow> pthread_key_t \<Rightarrow> addr \<Rightarrow> registry \<Rightarrow> registry" where
  "pthread_setspecific t k p s = s\<lparr>specific := (specific s)(t := (specific s t)(k := p))\<rparr>"

text \<open>
  Modelled from the spec: \<open>__sanitizer::InternalAlloc\<close> and \<open>InternalFree\<close>
  (\<open>sanitizer_common\<close>) are outside the file translated here. The spec has the registry
  allocate a new Context from an external memory source, with allocation failure fatal
  to the process, and release the allocation when the thread exits. A new block is
  never \<open>nullptr\<close> and never a block handed out before.
\<close>

definition InternalAlloc :: "registry \<Rightarrow> (addr, registry) exec" where
  "InternalAlloc s =
     (if length (heap s) < heap_limit s
      then Returns (Suc (length (heap s))) (s\<lparr>heap := heap s @ [Raw]\<rparr>)
      else Died s)"

definition InternalFree :: "addr \<Rightarrow> registry \<Rightarrow> registry" where
  "InternalFree p s =
     (if 0 < p \<and> p \<le> length (heap s) then s\<lparr>heap := (heap s)[p - 1 := Freed]\<rparr> else s)"

text \<open>\<open>new (p) __rtsan::Context();\<close>\<close>

definition placement_new :: "addr \<Rightarrow> Context \<Rightarrow> registry \<Rightarrow> registry" where
  "placement_new p c s = s\<lparr>heap := (heap s)[p - 1 := Live c]\<rparr>"

definition GetContextForThisThreadImpl :: "thread \<Rightarrow> registry \<Rightarrow> (addr, registry) exec" where
  "GetContextForThisThreadImpl t s =
     (case pthread_once make_thread_local_context_key s of
        CheckFailed s' \<Rightarrow> CheckFailed s'
      | Died s' \<Rightarrow> Died s'
      | Returns _ s1 \<Rightarrow>
          (let current_thread_context = pthread_getspecific t (context_key s1) s1 in
           if current_thread_context = 0 then
             (case InternalAlloc s1 of
                CheckFailed s' \<Rightarrow> CheckFailed s'
              | Died s' \<Rightarrow> Died s'
              | Returns p s2 \<Rightarrow>
                  (let s3 = placement_new p Context_default s2;
                       s4 = pthread_setspecific t (context_key s3) p s3
                   in Returns p s4))
           else Returns current_thread_context s1))"

definition GetContextForThisThread :: "thread \<Rightarrow> registry \<Rightarrow> (addr, registry) exec" where
  "GetContextForThisThread = GetContextForThisThreadImpl"

text \<open>
  What the thread library does when thread \<open>t\<close> exits: for every key with a destructor
  whose value on \<open>t\<close> is not \<open>NULL\<close>, the value is set to \<open>NULL\<close> and the destructor
  is called on the old value. \<open>InternalFreeWrapper(ptr)\<close> is \<open>InternalFree(ptr)\<close>.
\<close>

fun run_destructor :: "destructor \<Rightarrow> addr \<Rightarrow> registry \<Rightarrow> registry" where
  "run_destructor InternalFreeWrapper ptr s = InternalFree ptr s"

definition exit_key :: "thread \<Rightarrow> pthread_key_t \<times> destructor \<Rightarrow> registry \<Rightarrow> registry" where
  "exit_key t kd s =
     (case kd of (k, d) \<Rightarrow>
        (let p = specific s t k in
         if p = 0 then s
         else run_destructor d p (s\<lparr>specific := (specific s)(t := (specific s t)(k := 0))\<rparr>)))"

definition thread_exit :: "thread \<Rightarrow> registry \<Rightarrow> registry" where
  "thread_exit t s = fold (exit_key t) (key_destructors s) s"

text \<open>
  What can happen between two lookups: a lookup by some thread, a thread changing its
  own Context through the reference it holds, and a thread exiting.
\<close>

datatype registry_event =
    Lookup thread
  | ContextOp thread "Context \<Rightarrow> Context"
  | ThreadExit thread

definition context_op :: "thread \<Rightarrow> (Context \<Rightarrow> Context) \<Rightarrow> registry \<Rightarrow> registry" where
  "context_op t f s =
     (let p = specific s t (context_key s) in
      if key_once s \<and> 0 < p \<and> p \<le> length (heap s) then
        (case heap s ! (p - 1) of
           Live c \<Rightarrow> s\<lparr>heap := (heap s)[p - 1 := Live (f c)]\<rparr>
         | _ \<Rightarrow> s)
      else s)"

fun step :: "registry_event \<Rightarrow> registry \<Rightarrow> (unit, registry) exec" where
  "step (Lookup t) s =
     (case GetContextForThisThread t s of
        Returns _ s' \<Rightarrow> Returns () s'
      | CheckFailed s' \<Rightarrow> CheckFailed s'
      | Died s' \<Rightarrow> Died s')"
| "step (ContextOp t f) s = Returns () (context_op t f s)"
| "step (ThreadExit t) s = Returns () (thread_exit t s)"

fun run :: "registry_event list \<Rightarrow> registry \<Rightarrow> (unit, registry) exec" where
  "run [] s = Returns () s"
| "run (e # es) s =
     (case step e s of
        Returns _ s' \<Rightarrow> run es s'
      | CheckFailed s' \<Rightarrow> CheckFailed s'
      | Died s' \<Rightarrow> Died s')"

text \<open>A process in which no thread has looked up its Context yet.\<close>

definition registry_init :: "pthread_key_t list \<Rightarrow> nat \<Rightarrow> registry" where
  "registry_init ks limit =
     \<lparr>key_once = False, context_key = 0, pthread_keys = ks, key_destructors = [],
      specific = (\<lambda>t k. 0), heap = [], heap_limit = limit\<rparr>"

text \<open>Thread \<open>t\<close> has the Context at address \<open>a\<close> as its value for \<open>context_key\<close>.\<close>

definition associated :: "thread \<Rightarrow> addr \<Rightarrow> registry \<Rightarrow> bool" where
  "associated t a s \<longleftrightarrow> key_once s \<and> a \<noteq> 0 \<and> specific s t (context_key s) = a"

text \<open>The event is the exit of thread \<open>t\<close>.\<close>

fun exits :: "thread \<Rightarrow> registry_event \<Rightarrow> bool" where
  "exits t (ThreadExit u) = (u = t)"
| "exits t _ = False"


section \<open>Properties of the counters\<close>

lemma RealtimePush_funpow:
  "(RealtimePush ^^ n) c = c\<lparr>realtime_depth := realtime_depth c + of_nat n\<rparr>"
  by (induction n) (simp_all add: RealtimePush_def add.assoc add.commute)

lemma RealtimePop_funpow:
  "(RealtimePop ^^ n) c = c\<lparr>realtime_depth := realtime_depth c - of_nat n\<rparr>"
  by (induction n) (simp_all add: RealtimePop_def diff_diff_eq add.commute)

lemma BypassPush_funpow:
  "(BypassPush ^^ n) c = c\<lparr>bypass_depth := bypass_depth c + of_nat n\<rparr>"
  by (induction n) (simp_all add: BypassPush_def add.assoc add.commute)

lemma BypassPop_funpow:
  "(BypassPop ^^ n) c = c\<lparr>bypass_depth := bypass_depth c - of_nat n\<rparr>"
  by (induction n) (simp_all add: BypassPop_def diff_diff_eq add.commute)

lemma Realtime_balanced: "(RealtimePop ^^ n) ((RealtimePush ^^ n) c) = c"
  by (simp add: RealtimePush_funpow RealtimePop_funpow)

lemma Bypass_balanced: "(BypassPop ^^ n) ((BypassPush ^^ n) c) = c"
  by (simp add: BypassPush_funpow BypassPop_funpow)

text \<open>
  Claim C4. \<open>InRealtimeContext()\<close> is true exactly when \<open>realtime_depth > 0\<close>, and
  \<open>IsBypassed()\<close> is true exactly when \<open>bypass_depth > 0\<close>, for every context. In
  particular, a fresh context on which \<open>RealtimePush\<close> is called twice and
  \<open>RealtimePop\<close> once has depth 1 and is still in a real-time context.
\<close>

theorem C4_depth_predicates:
  "(\<forall>c. InRealtimeContext c = (sint (realtime_depth c) > 0))
   \<and> (\<forall>c. IsBypassed c = (sint (bypass_depth c) > 0))
   \<and> sint (realtime_depth (RealtimePop (RealtimePush (RealtimePush Context_default)))) = 1
   \<and> InRealtimeContext (RealtimePop (RealtimePush (RealtimePush Context_default)))"
  by (simp add: InRealtimeContext_def IsBypassed_def RealtimePush_def RealtimePop_def
      Context_default_def)

text \<open>
  Claim C5. For every \<open>N\<close>, \<open>N\<close> calls of \<open>RealtimePush\<close> followed by \<open>N\<close> calls of
  \<open>RealtimePop\<close> on a freshly created context leave \<open>InRealtimeContext()\<close> false, and
  \<open>N\<close> calls of \<open>BypassPush\<close> followed by \<open>N\<close> calls of \<open>BypassPop\<close> leave
  \<open>IsBypassed()\<close> false.
\<close>

theorem C5_balanced_push_pop:
  "\<not> InRealtimeContext ((RealtimePop ^^ N) ((RealtimePush ^^ N) Context_default))
   \<and> \<not> IsBypassed ((BypassPop ^^ N) ((BypassPush ^^ N) Context_default))"
  by (simp add: Realtime_balanced Bypass_balanced InRealtimeContext_def IsBypassed_def
      Context_default_def)

text \<open>
  Claim C10. On a context whose \<open>realtime_depth\<close> is 0, an unmatched \<open>RealtimePop\<close>
  does not fail: it takes the counter to \<open>-1\<close>. One following \<open>RealtimePush\<close> brings
  it back to 0 only, so \<open>InRealtimeContext()\<close> is false. The same holds for
  \<open>bypass_depth\<close> with \<open>BypassPop\<close>, \<open>BypassPush\<close> and \<open>IsBypassed()\<close>.
\<close>

theorem C10_unmatched_pop:
  "(realtime_depth c = 0 \<longrightarrow>
      sint (realtime_depth (RealtimePop c)) = - 1
      \<and> realtime_depth (RealtimePush (RealtimePop c)) = 0
      \<and> \<not> InRealtimeContext (RealtimePush (RealtimePop c)))
   \<and> (bypass_depth c = 0 \<longrightarrow>
      sint (bypass_depth (BypassPop c)) = - 1
      \<and> bypass_depth (BypassPush (BypassPop c)) = 0
      \<and> \<not> IsBypassed (BypassPush (BypassPop c)))"
  by (simp add: InRealtimeContext_def IsBypassed_def RealtimePush_def RealtimePop_def
      BypassPush_def BypassPop_def)

theorem C10_unmatched_pop_witness:
  "realtime_depth Context_default = 0 \<and> bypass_depth Context_default = 0
   \<and> sint (realtime_depth (RealtimePop Context_default)) = - 1
   \<and> \<not> InRealtimeContext (RealtimePush (RealtimePop Context_default))
   \<and> sint (bypass_depth (BypassPop Context_default)) = - 1
   \<and> \<not> IsBypassed (BypassPush (BypassPop Context_default))"
  using C10_unmatched_pop [of Context_default]
  by (simp add: Context_default_def)

section \<open>Properties of the reporter and the detector\<close>

lemma ctx_emit [simp]: "ctx (emit e s) = ctx s"
  and rtsan_is_initialized_emit [simp]:
    "rtsan_is_initialized (emit e s) = rtsan_is_initialized s"
  and decorator_emit [simp]: "decorator (emit e s) = decorator s"
  and report_emit [simp]: "report (emit e s) = report s @ [e]"
  by (simp_all add: emit_def)

lemma ctx_fold_emit [simp]: "ctx (fold emit es s) = ctx s"
  by (induction es arbitrary: s) simp_all

lemma rtsan_is_initialized_fold_emit [simp]:
  "rtsan_is_initialized (fold emit es s) = rtsan_is_initialized s"
  by (induction es arbitrary: s) simp_all

lemma decorator_fold_emit [simp]: "decorator (fold emit es s) = decorator s"
  by (induction es arbitrary: s) simp_all

lemma report_fold_emit [simp]: "report (fold emit es s) = report s @ es"
  by (induction es arbitrary: s) simp_all

lemma ExpectNotRealtime_with_uninitialized:
  "\<not> rtsan_is_initialized s \<Longrightarrow>
   ExpectNotRealtime_with action s name pc bp = CheckFailed s"
  by (simp add: ExpectNotRealtime_with_def)

lemma ExpectNotRealtime_with_fast_path:
  "rtsan_is_initialized s \<Longrightarrow> \<not> (InRealtimeContext (ctx s) \<and> \<not> IsBypassed (ctx s)) \<Longrightarrow>
   ExpectNotRealtime_with action s name pc bp = Returns () s"
  by (auto simp add: ExpectNotRealtime_with_def)

lemma ExpectNotRealtime_fast_path:
  "rtsan_is_initialized s \<Longrightarrow> \<not> (InRealtimeContext (ctx s) \<and> \<not> IsBypassed (ctx s)) \<Longrightarrow>
   ExpectNotRealtime s name pc bp = Returns () s"
  unfolding ExpectNotRealtime_def by (rule ExpectNotRealtime_with_fast_path)

lemma ExpectNotRealtime_violation:
  "rtsan_is_initialized s \<Longrightarrow> InRealtimeContext (ctx s) \<Longrightarrow> \<not> IsBypassed (ctx s) \<Longrightarrow>
   ExpectNotRealtime s name pc bp
     = Died (PrintDiagnostics name pc bp (s\<lparr>ctx := BypassPush (ctx s)\<rparr>))"
  by (simp add: ExpectNotRealtime_def ExpectNotRealtime_with_def
      InvokeViolationDetectedAction_def Let_def)

lemma process_of_simps [simp]:
  "rtsan_is_initialized (process_of i c) = i"
  "ctx (process_of i c) = c"
  "report (process_of i c) = []"
  "process_of i c\<lparr>ctx := c'\<rparr> = process_of i c'"
  by (simp_all add: process_of_def)

lemma fresh_pushed_violates:
  "InRealtimeContext (RealtimePush Context_default)"
  "\<not> IsBypassed (RealtimePush Context_default)"
  by (simp_all add: RealtimePush_def Context_default_def InRealtimeContext_def IsBypassed_def)

text \<open>
  Claim C1. Under the detector's precondition that global initialization is complete
  (its failure is the subject of claim C6), for every context and every function name
  a call of \<open>ExpectNotRealtime\<close> detects a violation (writes the report and ends the
  process) if and only if \<open>InRealtimeContext()\<close> is true and \<open>IsBypassed()\<close> is false
  at the moment of the call; in every other case it returns with the process state
  unchanged: no output, no change of the counters.
\<close>

theorem C1_detection_iff:
  assumes "rtsan_is_initialized s"
  shows "((\<exists>s'. ExpectNotRealtime s name pc bp = Died s'
              \<and> report s' = report s @ PrintDiagnostics_steps (decorator s) name pc bp)
          \<longleftrightarrow> InRealtimeContext (ctx s) \<and> \<not> IsBypassed (ctx s))
         \<and> (ExpectNotRealtime s name pc bp = Returns () s
          \<longleftrightarrow> \<not> (InRealtimeContext (ctx s) \<and> \<not> IsBypassed (ctx s)))"
proof (cases "InRealtimeContext (ctx s) \<and> \<not> IsBypassed (ctx s)")
  case True
  then have "ExpectNotRealtime s name pc bp
      = Died (PrintDiagnostics name pc bp (s\<lparr>ctx := BypassPush (ctx s)\<rparr>))"
    using assms by (simp add: ExpectNotRealtime_violation)
  with True show ?thesis by (simp add: PrintDiagnostics_def)
next
  case False
  then have "ExpectNotRealtime s name pc bp = Returns () s"
    using assms by (simp add: ExpectNotRealtime_fast_path)
  with False show ?thesis by simp
qed

theorem C1_detection_iff_witness:
  "rtsan_is_initialized (process_of True (RealtimePush Context_default))
   \<and> (\<exists>s'. ExpectNotRealtime (process_of True (RealtimePush Context_default))
              ''malloc'' 0 0 = Died s')
   \<and> ExpectNotRealtime (process_of True Context_default) ''malloc'' 0 0
       = Returns () (process_of True Context_default)
   \<and> ExpectNotRealtime (process_of True (BypassPush (RealtimePush Context_default)))
        ''malloc'' 0 0
       = Returns () (process_of True (BypassPush (RealtimePush Context_default)))"
proof -
  have a: "\<exists>s'. ExpectNotRealtime (process_of True (RealtimePush Context_default))
              ''malloc'' 0 0 = Died s'"
    using C1_detection_iff [of "process_of True (RealtimePush Context_default)" "''malloc''" 0 0]
      fresh_pushed_violates by auto
  have b: "ExpectNotRealtime (process_of True Context_default) ''malloc'' 0 0
       = Returns () (process_of True Context_default)"
    using C1_detection_iff [of "process_of True Context_default" "''malloc''" 0 0]
    by (simp add: Context_default_def InRealtimeContext_def)
  have c: "ExpectNotRealtime (process_of True (BypassPush (RealtimePush Context_default)))
        ''malloc'' 0 0
       = Returns () (process_of True (BypassPush (RealtimePush Context_default)))"
    using C1_detection_iff
      [of "process_of True (BypassPush (RealtimePush Context_default))" "''malloc''" 0 0]
    by (simp add: Context_default_def RealtimePush_def BypassPush_def IsBypassed_def)
  from a b c show ?thesis by simp
qed

text \<open>
  Claim C6. Every call of \<open>ExpectNotRealtime\<close> made before global initialization has
  completed fails the check, whatever the context, also a call that would otherwise
  take the fast path; once initialization is complete the check never fails.
\<close>

theorem C6_initialization_check:
  "(\<not> rtsan_is_initialized s \<longrightarrow> ExpectNotRealtime s name pc bp = CheckFailed s)
   \<and> (rtsan_is_initialized s \<longrightarrow> (\<forall>t. ExpectNotRealtime s name pc bp \<noteq> CheckFailed t))"
  by (simp add: ExpectNotRealtime_def ExpectNotRealtime_with_def
      InvokeViolationDetectedAction_def Let_def)

theorem C6_initialization_check_witness:
  "ExpectNotRealtime (process_of False Context_default) ''malloc'' 0 0
     = CheckFailed (process_of False Context_default)
   \<and> ExpectNotRealtime (process_of False (RealtimePush Context_default)) ''malloc'' 0 0
     = CheckFailed (process_of False (RealtimePush Context_default))
   \<and> ExpectNotRealtime (process_of True Context_default) ''malloc'' 0 0
     \<noteq> CheckFailed (process_of True Context_default)
   \<and> ExpectNotRealtime (process_of True (RealtimePush Context_default)) ''malloc'' 0 0
     \<noteq> CheckFailed (process_of True (RealtimePush Context_default))"
  using C6_initialization_check [of "process_of False Context_default" "''malloc''" 0 0]
    C6_initialization_check [of "process_of False (RealtimePush Context_default)" "''malloc''" 0 0]
    C6_initialization_check [of "process_of True Context_default" "''malloc''" 0 0]
    C6_initialization_check [of "process_of True (RealtimePush Context_default)" "''malloc''" 0 0]
  by simp

text \<open>
  Claim C9. Whenever a call of \<open>ExpectNotRealtime\<close> returns, \<open>realtime_depth\<close> and
  \<open>bypass_depth\<close> of the context are what they were on entry. This holds on the fast
  path, and on the violation path for any action in place of \<open>Die()\<close> that returns
  and does not itself change the context.
\<close>

theorem C9_counters_restored:
  assumes "\<And>t u t'. action t = Returns u t' \<Longrightarrow> ctx t' = ctx t"
    and "ExpectNotRealtime_with action s name pc bp = Returns v s'"
  shows "realtime_depth (ctx s') = realtime_depth (ctx s)
         \<and> bypass_depth (ctx s') = bypass_depth (ctx s)"
proof (cases "InRealtimeContext (ctx s) \<and> \<not> IsBypassed (ctx s)")
  case False
  with assms(2) have "s' = s"
    by (auto simp add: ExpectNotRealtime_with_def split: if_splits)
  then show ?thesis by simp
next
  case True
  let ?s2 = "PrintDiagnostics name pc bp (s\<lparr>ctx := BypassPush (ctx s)\<rparr>)"
  from True assms(2) obtain u s3 where
    a: "action ?s2 = Returns u s3" and s': "s' = s3\<lparr>ctx := BypassPop (ctx s3)\<rparr>"
    by (auto simp add: ExpectNotRealtime_with_def Let_def split: if_splits exec.splits)
  from assms(1) [OF a] have "ctx s3 = BypassPush (ctx s)"
    by (simp add: PrintDiagnostics_def)
  with s' show ?thesis
    by (simp add: BypassPush_def BypassPop_def)
qed

theorem C9_counters_restored_witness:
  "ExpectNotRealtime (process_of True Context_default) ''malloc'' 0 0
     = Returns () (process_of True Context_default)
   \<and> (\<exists>s'. ExpectNotRealtime_with (Returns ()) (process_of True (RealtimePush Context_default))
               ''malloc'' 0 0 = Returns () s'
          \<and> report s' \<noteq> []
          \<and> realtime_depth (ctx s') = 1 \<and> bypass_depth (ctx s') = 0)"
proof -
  have fast: "ExpectNotRealtime_with InvokeViolationDetectedAction
      (process_of True Context_default) ''malloc'' 0 0
     = Returns () (process_of True Context_default)"
    by (simp add: ExpectNotRealtime_with_def Context_default_def InRealtimeContext_def)
  have "realtime_depth (ctx (process_of True Context_default))
          = realtime_depth (ctx (process_of True Context_default))
        \<and> bypass_depth (ctx (process_of True Context_default))
          = bypass_depth (ctx (process_of True Context_default))"
    by (rule C9_counters_restored [OF _ fast]) (simp add: InvokeViolationDetectedAction_def)
  obtain s' where slow: "ExpectNotRealtime_with (Returns ())
      (process_of True (RealtimePush Context_default)) ''malloc'' 0 0 = Returns () s'"
    and rep: "report s' \<noteq> []"
    by (simp add: ExpectNotRealtime_with_def fresh_pushed_violates Let_def PrintDiagnostics_def
        PrintDiagnostics_steps_def)
  have "realtime_depth (ctx s') = realtime_depth (ctx (process_of True (RealtimePush Context_default)))
        \<and> bypass_depth (ctx s') = bypass_depth (ctx (process_of True (RealtimePush Context_default)))"
    by (rule C9_counters_restored [OF _ slow]) simp
  then have "realtime_depth (ctx s') = 1 \<and> bypass_depth (ctx s') = 0"
    by (simp add: RealtimePush_def Context_default_def)
  with fast slow rep show ?thesis
    by (auto simp add: ExpectNotRealtime_def)
qed

section \<open>Properties of the detector with a re-entering reporting path\<close>

lemma ExpectNotRealtime_nested_fast_path:
  "rtsan_is_initialized s \<Longrightarrow> \<not> (InRealtimeContext (ctx s) \<and> \<not> IsBypassed (ctx s)) \<Longrightarrow>
   ExpectNotRealtime_nested (Suc depth) ops action s name pc bp = Some (Returns () s)"
  by auto

lemma intercepted_calls_no_op:
  assumes "\<And>t n pc bp. rtsan_is_initialized t \<Longrightarrow> ctx t = c \<Longrightarrow> d t n pc bp = Some (Returns () t)"
    and "rtsan_is_initialized s" and "ctx s = c"
  shows "intercepted_calls d cs s = Some (Returns () s)"
proof (induction cs)
  case Nil
  show ?case by simp
next
  case (Cons x cs)
  obtain n pc bp where x: "x = (n, pc, bp)" by (cases x)
  from assms have "d s n pc bp = Some (Returns () s)" by simp
  with Cons.IH x show ?case by simp
qed

lemma PrintDiagnostics_reentrant_no_op:
  assumes "\<And>t n pc bp. rtsan_is_initialized t \<Longrightarrow> ctx t = c \<Longrightarrow> d t n pc bp = Some (Returns () t)"
  shows "rtsan_is_initialized s \<Longrightarrow> ctx s = c \<Longrightarrow>
    PrintDiagnostics_reentrant d ops es s = Some (Returns () (fold emit es s))"
proof (induction es arbitrary: s)
  case Nil
  show ?case by simp
next
  case (Cons e es)
  have "intercepted_calls d (ops e) s = Some (Returns () s)"
    using assms Cons.prems by (rule intercepted_calls_no_op)
  moreover have "PrintDiagnostics_reentrant d ops es (emit e s)
      = Some (Returns () (fold emit es (emit e s)))"
    using Cons.prems by (intro Cons.IH) simp_all
  ultimately show ?case by simp
qed

lemma PrintDiagnostics_reentrant_no_ops:
  "PrintDiagnostics_reentrant d (\<lambda>e. []) es s = Some (Returns () (fold emit es s))"
  by (induction es arbitrary: s) simp_all

text \<open>
  With a reporting path that performs no intercepted operation, the detector is
  \<open>ExpectNotRealtime_with\<close>.
\<close>

lemma ExpectNotRealtime_nested_no_ops:
  "ExpectNotRealtime_nested (Suc depth) (\<lambda>e. []) action s name pc bp
     = Some (ExpectNotRealtime_with action s name pc bp)"
  by (simp add: ExpectNotRealtime_with_def PrintDiagnostics_reentrant_no_ops
      PrintDiagnostics_def Let_def split: exec.splits)

text \<open>
  Entered with \<open>bypass_depth = 0\<close>, the violation path writes the report of
  \<open>PrintDiagnostics\<close> and nothing else, whatever intercepted operations the external
  calls perform: every nested detector call finds the context bypassed.
\<close>

lemma ExpectNotRealtime_nested_violation:
  assumes "rtsan_is_initialized s"
    and "InRealtimeContext (ctx s)" and "bypass_depth (ctx s) = 0"
  shows "ExpectNotRealtime_nested (Suc (Suc depth)) ops InvokeViolationDetectedAction s name pc bp
    = Some (Died (PrintDiagnostics name pc bp (s\<lparr>ctx := BypassPush (ctx s)\<rparr>)))"
proof -
  have nb: "\<not> IsBypassed (ctx s)"
    using assms(3) by (simp add: IsBypassed_def)
  have byp: "IsBypassed (BypassPush (ctx s))"
    using assms(3) by (simp add: IsBypassed_def BypassPush_def)
  have inner: "ExpectNotRealtime_nested (Suc depth) ops InvokeViolationDetectedAction t n pc' bp'
      = Some (Returns () t)"
    if "rtsan_is_initialized t" and "ctx t = BypassPush (ctx s)" for t n pc' bp'
    using that byp by (intro ExpectNotRealtime_nested_fast_path) simp_all
  have "PrintDiagnostics_reentrant
          (ExpectNotRealtime_nested (Suc depth) ops InvokeViolationDetectedAction) ops
          (PrintDiagnostics_steps (decorator s) name pc bp) (s\<lparr>ctx := BypassPush (ctx s)\<rparr>)
      = Some (Returns () (fold emit (PrintDiagnostics_steps (decorator s) name pc bp)
                            (s\<lparr>ctx := BypassPush (ctx s)\<rparr>)))"
    using inner by (rule PrintDiagnostics_reentrant_no_op) (simp_all add: assms(1))
  then show ?thesis
    using assms(1,2) nb
    by (simp add: PrintDiagnostics_def InvokeViolationDetectedAction_def)
qed








text \<open>
  Claim C3, as amended. On the violation path entered with \<open>bypass_depth = 0\<close>,
  \<open>ExpectNotRealtime\<close> increments the bypass counter before the reporter runs.
  Whatever intercepted operations the reporting path performs, each of them calls the
  detector on a bypassed context and is a no-op: the call writes the one report of
  \<open>PrintDiagnostics\<close>, started from the state with the counter incremented, and
  nothing else. In that state and in the state after any number of reporting steps
  \<open>IsBypassed()\<close> is true and a nested call of \<open>ExpectNotRealtime\<close> returns with
  nothing changed.
\<close>

theorem C3_bypass_during_report:
  assumes "rtsan_is_initialized s"
    and "InRealtimeContext (ctx s)" and "bypass_depth (ctx s) = 0"
  shows "ExpectNotRealtime_nested (Suc (Suc depth)) ops InvokeViolationDetectedAction
           s name pc bp
           = Some (Died (PrintDiagnostics name pc bp (s\<lparr>ctx := BypassPush (ctx s)\<rparr>)))
     \<and> (\<forall>k n pc' bp'.
          IsBypassed (ctx (fold emit (take k (PrintDiagnostics_steps (decorator s) name pc bp))
                             (s\<lparr>ctx := BypassPush (ctx s)\<rparr>)))
          \<and> ExpectNotRealtime_nested (Suc depth) ops InvokeViolationDetectedAction
               (fold emit (take k (PrintDiagnostics_steps (decorator s) name pc bp))
                  (s\<lparr>ctx := BypassPush (ctx s)\<rparr>)) n pc' bp'
             = Some (Returns ()
                 (fold emit (take k (PrintDiagnostics_steps (decorator s) name pc bp))
                    (s\<lparr>ctx := BypassPush (ctx s)\<rparr>))))"
proof -
  have run: "ExpectNotRealtime_nested (Suc (Suc depth)) ops InvokeViolationDetectedAction
        s name pc bp
      = Some (Died (PrintDiagnostics name pc bp (s\<lparr>ctx := BypassPush (ctx s)\<rparr>)))"
    using assms by (rule ExpectNotRealtime_nested_violation)
  have byp: "IsBypassed (BypassPush (ctx s))"
    using assms(3) by (simp add: IsBypassed_def BypassPush_def)
  have nested: "ExpectNotRealtime_nested (Suc depth) ops InvokeViolationDetectedAction t n pc' bp'
      = Some (Returns () t)"
    if "rtsan_is_initialized t" and "ctx t = BypassPush (ctx s)" for t n pc' bp'
    using that byp by (intro ExpectNotRealtime_nested_fast_path) simp_all
  show ?thesis
    using run byp assms(1) nested by simp
qed

theorem C3_bypass_during_report_witness:
  "ExpectNotRealtime_nested (Suc (Suc 0)) stack_trace_allocates InvokeViolationDetectedAction
     (process_of True (RealtimePush Context_default)) ''malloc'' 0 0
     = Some (Died (PrintDiagnostics ''malloc'' 0 0
               (process_of True (BypassPush (RealtimePush Context_default)))))
   \<and> IsBypassed (BypassPush (RealtimePush Context_default))
   \<and> ExpectNotRealtime_nested (Suc 0) stack_trace_allocates InvokeViolationDetectedAction
        (process_of True (BypassPush (RealtimePush Context_default))) ''write'' 0 0
      = Some (Returns () (process_of True (BypassPush (RealtimePush Context_default))))"
proof -
  have d: "bypass_depth (ctx (process_of True (RealtimePush Context_default))) = 0"
    by (simp add: RealtimePush_def Context_default_def)
  have i: "rtsan_is_initialized (process_of True (RealtimePush Context_default))"
    by simp
  have r: "InRealtimeContext (ctx (process_of True (RealtimePush Context_default)))"
    by (simp add: fresh_pushed_violates)
  note th = C3_bypass_during_report [OF i r d, of 0 stack_trace_allocates "''malloc''" 0 0]
  from th have run: "ExpectNotRealtime_nested (Suc (Suc 0)) stack_trace_allocates
      InvokeViolationDetectedAction (process_of True (RealtimePush Context_default))
      ''malloc'' 0 0
     = Some (Died (PrintDiagnostics ''malloc'' 0 0
               (process_of True (BypassPush (RealtimePush Context_default)))))"
    by simp
  from th have "IsBypassed (ctx (fold emit
        (take 0 (PrintDiagnostics_steps
           (decorator (process_of True (RealtimePush Context_default))) ''malloc'' 0 0))
        (process_of True (RealtimePush Context_default)
           \<lparr>ctx := BypassPush (ctx (process_of True (RealtimePush Context_default)))\<rparr>)))
      \<and> ExpectNotRealtime_nested (Suc 0) stack_trace_allocates InvokeViolationDetectedAction
         (fold emit
            (take 0 (PrintDiagnostics_steps
               (decorator (process_of True (RealtimePush Context_default))) ''malloc'' 0 0))
            (process_of True (RealtimePush Context_default)
               \<lparr>ctx := BypassPush (ctx (process_of True (RealtimePush Context_default)))\<rparr>))
         ''write'' 0 0
        = Some (Returns ()
           (fold emit
              (take 0 (PrintDiagnostics_steps
                 (decorator (process_of True (RealtimePush Context_default))) ''malloc'' 0 0))
              (process_of True (RealtimePush Context_default)
                 \<lparr>ctx := BypassPush (ctx (process_of True (RealtimePush Context_default)))\<rparr>)))"
    by blast
  then have nested: "IsBypassed (BypassPush (RealtimePush Context_default))
   \<and> ExpectNotRealtime_nested (Suc 0) stack_trace_allocates InvokeViolationDetectedAction
        (process_of True (BypassPush (RealtimePush Context_default))) ''write'' 0 0
      = Some (Returns () (process_of True (BypassPush (RealtimePush Context_default))))"
    by simp
  from run nested show ?thesis by simp
qed

text \<open>
  The claim as first stated fails where \<open>bypass_depth\<close> is negative on entry: after
  \<open>BypassPop\<close> and \<open>RealtimePush\<close> on a fresh context the violation path is taken,
  \<open>BypassPush\<close> brings the counter to 0 only, \<open>IsBypassed()\<close> is false while the
  report is written, and a nested call is not a no-op.
\<close>

theorem C3_negative_bypass_counterexample:
  "rtsan_is_initialized (process_of True (RealtimePush (BypassPop Context_default)))
   \<and> sint (bypass_depth (RealtimePush (BypassPop Context_default))) = - 1
   \<and> InRealtimeContext (ctx (process_of True (RealtimePush (BypassPop Context_default))))
   \<and> \<not> IsBypassed (ctx (process_of True (RealtimePush (BypassPop Context_default))))
   \<and> ExpectNotRealtime (process_of True (RealtimePush (BypassPop Context_default)))
        ''malloc'' 0 0
       = Died (PrintDiagnostics ''malloc'' 0 0
                 (process_of True (BypassPush (RealtimePush (BypassPop Context_default)))))
   \<and> \<not> IsBypassed
         (ctx (process_of True (BypassPush (RealtimePush (BypassPop Context_default)))))
   \<and> ExpectNotRealtime
         (process_of True (BypassPush (RealtimePush (BypassPop Context_default))))
         ''write'' 0 0
       \<noteq> Returns () (process_of True (BypassPush (RealtimePush (BypassPop Context_default))))"
  by (simp add: ExpectNotRealtime_def ExpectNotRealtime_with_def
      InvokeViolationDetectedAction_def InRealtimeContext_def IsBypassed_def BypassPush_def
      BypassPop_def RealtimePush_def Context_default_def Let_def)


section \<open>Properties of the registry\<close>

lemma GetContextForThisThread_first:
  assumes "\<not> key_once s \<or> specific s t (context_key s) = 0"
    and "key_once s \<or> pthread_keys s \<noteq> []"
    and "length (heap s) < heap_limit s"
  shows "\<exists>s1. GetContextForThisThread t s = Returns (Suc (length (heap s))) s1
      \<and> heap s1 = heap s @ [Live Context_default]
      \<and> key_once s1
      \<and> specific s1 t (context_key s1) = Suc (length (heap s))"
proof (cases "key_once s")
  case True
  with assms(1) have "specific s t (context_key s) = 0" by simp
  with True assms(3) show ?thesis
    by (simp add: GetContextForThisThread_def GetContextForThisThreadImpl_def pthread_once_def
        pthread_getspecific_def InternalAlloc_def placement_new_def pthread_setspecific_def
        Let_def)
next
  case False
  with assms(2) obtain k ks where "pthread_keys s = k # ks"
    by (cases "pthread_keys s") auto
  with False assms(3) show ?thesis
    by (simp add: GetContextForThisThread_def GetContextForThisThreadImpl_def pthread_once_def
        make_thread_local_context_key_def pthread_key_create_def
        pthread_getspecific_def InternalAlloc_def placement_new_def pthread_setspecific_def
        Let_def)
qed

lemma GetContextForThisThread_again:
  assumes "associated t a s"
  shows "GetContextForThisThread t s = Returns a s"
  using assms
  by (simp add: associated_def GetContextForThisThread_def GetContextForThisThreadImpl_def
      pthread_once_def pthread_getspecific_def Let_def)

lemma InternalFree_fields [simp]:
  "key_once (InternalFree p s) = key_once s"
  "context_key (InternalFree p s) = context_key s"
  "specific (InternalFree p s) = specific s"
  "key_destructors (InternalFree p s) = key_destructors s"
  by (simp_all add: InternalFree_def)

lemma exit_key_fields:
  "key_once (exit_key u kd s) = key_once s"
  "context_key (exit_key u kd s) = context_key s"
  "u \<noteq> t \<Longrightarrow> specific (exit_key u kd s) t = specific s t"
  by (cases kd; cases "snd kd"; simp add: exit_key_def Let_def)+

lemma fold_exit_key_fields:
  "key_once (fold (exit_key u) kds s) = key_once s"
  "context_key (fold (exit_key u) kds s) = context_key s"
  "u \<noteq> t \<Longrightarrow> specific (fold (exit_key u) kds s) t = specific s t"
  by (induction kds arbitrary: s) (simp_all add: exit_key_fields)

lemma associated_thread_exit:
  "associated t a s \<Longrightarrow> u \<noteq> t \<Longrightarrow> associated t a (thread_exit u s)"
  by (simp add: associated_def thread_exit_def fold_exit_key_fields)

lemma associated_context_op:
  "associated t a s \<Longrightarrow> associated t a (context_op u f s)"
  by (simp add: associated_def context_op_def Let_def split: block.splits)

lemma associated_lookup:
  assumes "associated t a s" and "GetContextForThisThread u s = Returns b s'"
  shows "associated t a s'"
proof (cases "specific s u (context_key s) = 0")
  case True
  with assms(1) have "u \<noteq> t" by (auto simp add: associated_def)
  with assms True show ?thesis
    by (auto simp add: associated_def GetContextForThisThread_def
        GetContextForThisThreadImpl_def pthread_once_def pthread_getspecific_def
        InternalAlloc_def placement_new_def pthread_setspecific_def Let_def
        split: if_splits)
next
  case False
  with assms show ?thesis
    by (auto simp add: associated_def GetContextForThisThread_def
        GetContextForThisThreadImpl_def pthread_once_def pthread_getspecific_def Let_def)
qed

lemma associated_step:
  assumes "associated t a s" and "\<not> exits t e" and "step e s = Returns v s'"
  shows "associated t a s'"
proof (cases e)
  case (Lookup u)
  with assms(3) obtain b where "GetContextForThisThread u s = Returns b s'"
    by (auto split: exec.splits)
  with assms(1) show ?thesis by (rule associated_lookup)
next
  case (ContextOp u f)
  with assms(1,3) show ?thesis by (auto simp add: associated_context_op)
next
  case (ThreadExit u)
  with assms show ?thesis by (auto simp add: associated_thread_exit)
qed

lemma associated_run:
  "associated t a s \<Longrightarrow> \<not> list_ex (exits t) evs \<Longrightarrow> run evs s = Returns v s' \<Longrightarrow>
   associated t a s'"
proof (induction evs arbitrary: s)
  case Nil
  then show ?case by simp
next
  case (Cons e evs)
  from Cons.prems(3) obtain u s1 where st: "step e s = Returns u s1"
    and rest: "run evs s1 = Returns v s'"
    by (auto split: exec.splits)
  from Cons.prems(1,2) st have "associated t a s1"
    by (auto intro: associated_step)
  with Cons.IH rest Cons.prems(2) show ?case by simp
qed

text \<open>
  Claim C7. When thread \<open>t\<close> has no Context yet (the one-time setup has not run, or
  the thread's value for the key is \<open>NULL\<close>), and a key and memory are available,
  \<open>GetContextForThisThread()\<close> returns a new address: exactly one block is added to
  the heap, it holds a default-constructed Context, and it is the thread's value for
  the key. After any sequence of lookups by any threads, changes of Contexts and exits
  of other threads, a lookup by \<open>t\<close> returns that same address and leaves the state,
  and so the heap, as it was.
\<close>

theorem C7_same_instance:
  assumes "\<not> key_once s \<or> specific s t (context_key s) = 0"
    and "key_once s \<or> pthread_keys s \<noteq> []"
    and "length (heap s) < heap_limit s"
  shows "\<exists>a s1. GetContextForThisThread t s = Returns a s1
      \<and> a \<noteq> 0 \<and> a = Suc (length (heap s))
      \<and> heap s1 = heap s @ [Live Context_default]
      \<and> pthread_getspecific t (context_key s1) s1 = a
      \<and> (\<forall>evs s2. \<not> list_ex (exits t) evs \<and> run evs s1 = Returns () s2
            \<longrightarrow> GetContextForThisThread t s2 = Returns a s2)"
proof -
  from GetContextForThisThread_first [OF assms] obtain s1 where
    r: "GetContextForThisThread t s = Returns (Suc (length (heap s))) s1"
    and h: "heap s1 = heap s @ [Live Context_default]"
    and k: "key_once s1"
    and sp: "specific s1 t (context_key s1) = Suc (length (heap s))"
    by blast
  from k sp have assoc: "associated t (Suc (length (heap s))) s1"
    by (simp add: associated_def)
  have later: "GetContextForThisThread t s2 = Returns (Suc (length (heap s))) s2"
    if "\<not> list_ex (exits t) evs" and "run evs s1 = Returns () s2" for evs s2
    using associated_run [OF assoc that] by (rule GetContextForThisThread_again)
  from r h sp later show ?thesis
    by (auto simp add: pthread_getspecific_def)
qed

lemmas registry_defs =
  GetContextForThisThread_def GetContextForThisThreadImpl_def pthread_once_def
  make_thread_local_context_key_def pthread_key_create_def pthread_getspecific_def
  InternalAlloc_def placement_new_def pthread_setspecific_def registry_init_def
  thread_exit_def exit_key_def InternalFree_def context_op_def Let_def

theorem C7_same_instance_witness:
  "\<exists>s1 s2. GetContextForThisThread 1 (registry_init [7] 4) = Returns 1 s1
      \<and> heap s1 = [Live Context_default]
      \<and> run [Lookup 2, ContextOp 1 RealtimePush, ThreadExit 2, Lookup 1] s1 = Returns () s2
      \<and> heap s2 = [Live (RealtimePush Context_default), Freed]
      \<and> GetContextForThisThread 1 s2 = Returns 1 s2"
proof -
  define S1 where "S1 =
   \<lparr>key_once = True, context_key = 7, pthread_keys = [],
    key_destructors = [(7, InternalFreeWrapper)],
    specific = (\<lambda>t k. 0)(1 := (\<lambda>k. 0)(7 := 1)),
    heap = [Live Context_default], heap_limit = 4\<rparr>"
  have first: "GetContextForThisThread 1 (registry_init [7] 4) = Returns 1 S1"
    unfolding S1_def by (simp add: registry_defs cong del: if_weak_cong)
  obtain s2 where
    run: "run [Lookup 2, ContextOp 1 RealtimePush, ThreadExit 2, Lookup 1] S1 = Returns () s2"
    and h2: "heap s2 = [Live (RealtimePush Context_default), Freed]"
    unfolding S1_def by (simp add: registry_defs cong del: if_weak_cong)
  have ne: "\<not> list_ex (exits 1) [Lookup 2, ContextOp 1 RealtimePush, ThreadExit 2, Lookup 1]"
    by simp
  have p1: "\<not> key_once (registry_init [7] 4)
      \<or> specific (registry_init [7] 4) 1 (context_key (registry_init [7] 4)) = 0"
    and p2: "key_once (registry_init [7] 4) \<or> pthread_keys (registry_init [7] 4) \<noteq> []"
    and p3: "length (heap (registry_init [7] 4)) < heap_limit (registry_init [7] 4)"
    by (simp_all add: registry_init_def)
  from C7_same_instance [OF p1 p2 p3] obtain a s1 where
    r: "GetContextForThisThread 1 (registry_init [7] 4) = Returns a s1"
    and later: "\<forall>evs s2. \<not> list_ex (exits 1) evs \<and> run evs s1 = Returns () s2
        \<longrightarrow> GetContextForThisThread 1 s2 = Returns a s2"
    by blast
  from r first have eq: "a = 1" "s1 = S1" by simp_all
  from later ne run have again: "GetContextForThisThread 1 s2 = Returns 1 s2"
    unfolding eq by blast
  have "heap S1 = [Live Context_default]"
    by (simp add: S1_def)
  with first run h2 again show ?thesis by blast
qed

end
